theory Spec2Isabelle
  imports Main "HOL-Library.Word"
begin

unbundle bit_operations_syntax

section \<open>Shared vocabulary\<close>

type_synonym byte = "8 word"
type_synonym uint32 = "32 word"

text \<open>A Go call either returns a value or panics; the panic carries its message.\<close>

datatype 'a outcome = Return 'a | Panics string

text \<open>The error values the framing layer can hand back (\<open>errors.New\<close> texts and the
  two errors of \<open>io.ReadFull\<close>).\<close>

datatype net_error = MessageTooLong | MessageTooShort | EOF | ErrUnexpectedEOF

section \<open>The framing codec (network, MsgParser)\<close>

record MsgParser =
  lenMsgLen :: int
  minMsgLen :: uint32
  maxMsgLen :: uint32
  littleEndian :: bool

definition NewMsgParser :: MsgParser where
  "NewMsgParser = \<lparr>lenMsgLen = 2, minMsgLen = 1, maxMsgLen = 4096, littleEndian = False\<rparr>"

text \<open>\<open>SetMsgLen\<close>: the three guarded assignments, then the clamp against the largest
  value of the chosen width. The \<open>switch\<close> has no default, so \<open>max\<close> keeps its zero
  value for any other width.\<close>

definition width_max :: "int \<Rightarrow> uint32" where
  "width_max w = (if w = 1 then 0xFF else if w = 2 then 0xFFFF
                  else if w = 4 then 0xFFFFFFFF else 0)"

definition SetMsgLen :: "int \<Rightarrow> uint32 \<Rightarrow> uint32 \<Rightarrow> MsgParser \<Rightarrow> MsgParser" where
  "SetMsgLen l mn mx p =
     (let p1 = (if l = 1 \<or> l = 2 \<or> l = 4 then p\<lparr>lenMsgLen := l\<rparr> else p);
          p2 = (if mn \<noteq> 0 then p1\<lparr>minMsgLen := mn\<rparr> else p1);
          p3 = (if mx \<noteq> 0 then p2\<lparr>maxMsgLen := mx\<rparr> else p2);
          m = width_max (lenMsgLen p3);
          p4 = (if minMsgLen p3 > m then p3\<lparr>minMsgLen := m\<rparr> else p3);
          p5 = (if maxMsgLen p4 > m then p4\<lparr>maxMsgLen := m\<rparr> else p4)
      in p5)"

definition SetByteOrder :: "bool \<Rightarrow> MsgParser \<Rightarrow> MsgParser" where
  "SetByteOrder le p = p\<lparr>littleEndian := le\<rparr>"

text \<open>\<open>io.ReadFull\<close> on a transport that delivers the bytes of \<open>s\<close> and then end of
  file: exactly \<open>n\<close> bytes or an error; a request for zero bytes succeeds without reading.\<close>

definition ReadFull :: "nat \<Rightarrow> byte list \<Rightarrow> (net_error + byte list) \<times> byte list" where
  "ReadFull n s =
     (if n \<le> length s then (Inr (take n s), drop n s)
      else if s = [] then (Inl EOF, [])
      else (Inl ErrUnexpectedEOF, []))"

text \<open>The unsigned integers of \<open>encoding/binary\<close>.\<close>

definition be_uint16 :: "byte list \<Rightarrow> 16 word" where
  "be_uint16 b = (ucast (b ! 1)) OR push_bit 8 (ucast (b ! 0))"

definition le_uint16 :: "byte list \<Rightarrow> 16 word" where
  "le_uint16 b = (ucast (b ! 0)) OR push_bit 8 (ucast (b ! 1))"

definition be_uint32 :: "byte list \<Rightarrow> uint32" where
  "be_uint32 b = (ucast (b ! 3)) OR push_bit 8 (ucast (b ! 2))
                 OR push_bit 16 (ucast (b ! 1)) OR push_bit 24 (ucast (b ! 0))"

definition le_uint32 :: "byte list \<Rightarrow> uint32" where
  "le_uint32 b = (ucast (b ! 0)) OR push_bit 8 (ucast (b ! 1))
                 OR push_bit 16 (ucast (b ! 2)) OR push_bit 24 (ucast (b ! 3))"

definition be_put16 :: "byte list \<Rightarrow> 16 word \<Rightarrow> byte list" where
  "be_put16 b v = b[0 := ucast (drop_bit 8 v), 1 := ucast v]"

definition le_put16 :: "byte list \<Rightarrow> 16 word \<Rightarrow> byte list" where
  "le_put16 b v = b[0 := ucast v, 1 := ucast (drop_bit 8 v)]"

definition be_put32 :: "byte list \<Rightarrow> uint32 \<Rightarrow> byte list" where
  "be_put32 b v = b[0 := ucast (drop_bit 24 v), 1 := ucast (drop_bit 16 v),
                    2 := ucast (drop_bit 8 v), 3 := ucast v]"

definition le_put32 :: "byte list \<Rightarrow> uint32 \<Rightarrow> byte list" where
  "le_put32 b v = b[0 := ucast v, 1 := ucast (drop_bit 8 v),
                    2 := ucast (drop_bit 16 v), 3 := ucast (drop_bit 24 v)]"

text \<open>The length decoded from the header bytes (the \<open>switch\<close> of \<open>Read\<close>; no case
  matches another width and \<open>msgLen\<close> stays zero).\<close>

definition parse_len :: "MsgParser \<Rightarrow> byte list \<Rightarrow> uint32" where
  "parse_len p b =
     (if lenMsgLen p = 1 then ucast (b ! 0)
      else if lenMsgLen p = 2 then
        (if littleEndian p then ucast (le_uint16 b) else ucast (be_uint16 b))
      else if lenMsgLen p = 4 then
        (if littleEndian p then le_uint32 b else be_uint32 b)
      else 0)"

text \<open>\<open>MsgParser.Read\<close>: the stream stands for what the connection delivers; the
  result carries what is left of it. Slicing the four-byte array panics outside 0..4.\<close>

definition MsgParser_Read :: "MsgParser \<Rightarrow> byte list \<Rightarrow> ((net_error + byte list) \<times> byte list) outcome" where
  "MsgParser_Read p s =
     (if lenMsgLen p < 0 \<or> 4 < lenMsgLen p then Panics ''slice bounds out of range''
      else case ReadFull (nat (lenMsgLen p)) s of
        (Inl e, s1) \<Rightarrow> Return (Inl e, s1)
      | (Inr bufMsgLen, s1) \<Rightarrow>
          (let msgLen = parse_len p bufMsgLen in
           if msgLen > maxMsgLen p then Return (Inl MessageTooLong, s1)
           else if msgLen < minMsgLen p then Return (Inl MessageTooShort, s1)
           else case ReadFull (unat msgLen) s1 of
                  (Inl e, s2) \<Rightarrow> Return (Inl e, s2)
                | (Inr msgData, s2) \<Rightarrow> Return (Inr msgData, s2)))"

text \<open>The first loop of \<open>Write\<close>: the lengths are converted to \<open>uint32\<close> and added
  there, so the sum wraps.\<close>

fun sum_len :: "uint32 \<Rightarrow> byte list list \<Rightarrow> uint32" where
  "sum_len acc [] = acc"
| "sum_len acc (a # as) = sum_len (acc + of_nat (length a)) as"

text \<open>Writing the header into the fresh buffer; the \<open>encoding/binary\<close> writers and
  the index expression panic on a buffer that is too short.\<close>

definition put_len :: "MsgParser \<Rightarrow> uint32 \<Rightarrow> byte list \<Rightarrow> byte list outcome" where
  "put_len p msgLen msg =
     (if lenMsgLen p = 1 then
        (if length msg < 1 then Panics ''index out of range''
         else Return (msg[0 := ucast msgLen]))
      else if lenMsgLen p = 2 then
        (if length msg < 2 then Panics ''index out of range''
         else Return (if littleEndian p then le_put16 msg (ucast msgLen)
                      else be_put16 msg (ucast msgLen)))
      else if lenMsgLen p = 4 then
        (if length msg < 4 then Panics ''index out of range''
         else Return (if littleEndian p then le_put32 msg msgLen
                      else be_put32 msg msgLen))
      else Return msg)"

text \<open>The second loop: \<open>copy(msg[l:], args[i])\<close> copies as many bytes as fit and the
  slice expression panics when \<open>l\<close> lies outside the buffer.\<close>

fun copy_args :: "byte list \<Rightarrow> int \<Rightarrow> byte list list \<Rightarrow> byte list outcome" where
  "copy_args msg l [] = Return msg"
| "copy_args msg l (a # as) =
     (if l < 0 \<or> int (length msg) < l then Panics ''slice bounds out of range''
      else let k = min (length msg - nat l) (length a) in
           copy_args (take (nat l) msg @ take k a @ drop (nat l + k) msg)
                     (l + int (length a)) as)"

text \<open>\<open>MsgParser.Write\<close> up to its last statement: either an error, or the one
  contiguous buffer that is then passed to \<open>conn.Write\<close>.\<close>

definition frame :: "MsgParser \<Rightarrow> byte list list \<Rightarrow> (net_error + byte list) outcome" where
  "frame p args =
     (let msgLen = sum_len 0 args in
      if msgLen > maxMsgLen p then Return (Inl MessageTooLong)
      else if msgLen < minMsgLen p then Return (Inl MessageTooShort)
      else case put_len p msgLen (replicate (unat (word_of_int (lenMsgLen p) + msgLen)) 0) of
             Panics s \<Rightarrow> Panics s
           | Return msg \<Rightarrow>
               (case copy_args msg (lenMsgLen p) args of
                  Panics s \<Rightarrow> Panics s
                | Return msg' \<Rightarrow> Return (Inr msg')))"

text \<open>The length header in the words of the wire format: \<open>w\<close> bytes holding the
  unsigned integer \<open>n\<close>, most significant byte first, or last for little-endian.\<close>

definition encode_len :: "nat \<Rightarrow> bool \<Rightarrow> nat \<Rightarrow> byte list" where
  "encode_len w le n =
     (let be = map (\<lambda>i. of_nat (n div 256 ^ (w - 1 - i))) [0..<w]
      in if le then rev be else be)"

text \<open>The header of a parser for a length held in a \<open>uint32\<close>.\<close>

definition hdr_bytes :: "MsgParser \<Rightarrow> uint32 \<Rightarrow> byte list" where
  "hdr_bytes p m = encode_len (nat (lenMsgLen p)) (littleEndian p) (unat m)"

section \<open>Connections and their write queue (network, TCPConn and WSConn)\<close>

text \<open>What both connection types hold: the buffered channel \<open>writeChan\<close> (its
  contents in order, \<open>None\<close> for a nil slice, its capacity, and whether it was closed),
  the \<open>closeFlag\<close>, and of the transport: whether linger 0 was set, whether it was
  closed, and the bytes the writer task has put on it.\<close>

record conn_core =
  writeChan :: "byte list option list"
  writeCap :: nat
  chanClosed :: bool
  closeFlag :: bool
  lingerZero :: bool
  transportClosed :: bool
  wire :: "byte list list"

record TCPConn = conn_core +
  msgParser :: MsgParser

record WSConn = conn_core +
  wsMaxMsgLen :: uint32

text \<open>\<open>make(chan []byte, pendingWriteNum)\<close> panics on a negative size.\<close>

definition newTCPConn :: "int \<Rightarrow> MsgParser \<Rightarrow> TCPConn outcome" where
  "newTCPConn pendingWriteNum p =
     (if pendingWriteNum < 0 then Panics ''makechan: size out of range''
      else Return \<lparr>writeChan = [], writeCap = nat pendingWriteNum, chanClosed = False,
                    closeFlag = False, lingerZero = False, transportClosed = False,
                    wire = [], msgParser = p\<rparr>)"


subsection \<open>TCPConn\<close>

definition TCPConn_doDestroy :: "TCPConn \<Rightarrow> TCPConn outcome" where
  "TCPConn_doDestroy c =
     (let c1 = c\<lparr>lingerZero := True, transportClosed := True\<rparr> in
      if \<not> closeFlag c1 then
        (if chanClosed c1 then Panics ''close of closed channel''
         else Return (c1\<lparr>chanClosed := True, closeFlag := True\<rparr>))
      else Return c1)"

definition TCPConn_Destroy :: "TCPConn \<Rightarrow> TCPConn outcome" where
  "TCPConn_Destroy c = TCPConn_doDestroy c"

definition TCPConn_doWrite :: "byte list option \<Rightarrow> TCPConn \<Rightarrow> TCPConn outcome" where
  "TCPConn_doWrite b c =
     (if length (writeChan c) = writeCap c then TCPConn_doDestroy c
      else if chanClosed c then Panics ''send on closed channel''
      else Return (c\<lparr>writeChan := writeChan c @ [b]\<rparr>))"

definition TCPConn_Close :: "TCPConn \<Rightarrow> TCPConn outcome" where
  "TCPConn_Close c =
     (if closeFlag c then Return c
      else case TCPConn_doWrite None c of
             Panics s \<Rightarrow> Panics s
           | Return c1 \<Rightarrow> Return (c1\<lparr>closeFlag := True\<rparr>))"

definition TCPConn_Write :: "byte list option \<Rightarrow> TCPConn \<Rightarrow> TCPConn outcome" where
  "TCPConn_Write b c =
     (if closeFlag c \<or> b = None then Return c else TCPConn_doWrite b c)"

text \<open>\<open>MsgParser.Write\<close>: the result of \<open>conn.Write\<close> is not looked at and \<open>nil\<close>
  is returned after it.\<close>

definition MsgParser_Write :: "MsgParser \<Rightarrow> TCPConn \<Rightarrow> byte list list
    \<Rightarrow> (net_error option \<times> TCPConn) outcome" where
  "MsgParser_Write p c args =
     (case frame p args of
        Panics s \<Rightarrow> Panics s
      | Return (Inl e) \<Rightarrow> Return (Some e, c)
      | Return (Inr msg) \<Rightarrow>
          (case TCPConn_Write (Some msg) c of
             Panics s \<Rightarrow> Panics s
           | Return c1 \<Rightarrow> Return (None, c1)))"

definition TCPConn_WriteMsg :: "byte list list \<Rightarrow> TCPConn
    \<Rightarrow> (net_error option \<times> TCPConn) outcome" where
  "TCPConn_WriteMsg args c = MsgParser_Write (msgParser c) c args"

text \<open>One turn of the writer task started by \<open>newTCPConn\<close>: it receives the next
  buffer; a nil buffer, a failed write (\<open>ok\<close> false) or a closed and drained channel
  ends the loop, after which the transport is closed and the flag set.\<close>

definition TCPConn_writer :: "bool \<Rightarrow> TCPConn \<Rightarrow> TCPConn" where
  "TCPConn_writer ok c =
     (case writeChan c of
        [] \<Rightarrow> (if chanClosed c then c\<lparr>transportClosed := True, closeFlag := True\<rparr> else c)
      | None # q \<Rightarrow> c\<lparr>writeChan := q, transportClosed := True, closeFlag := True\<rparr>
      | Some b # q \<Rightarrow>
          (if ok then c\<lparr>writeChan := q, wire := wire c @ [b]\<rparr>
           else c\<lparr>writeChan := q, transportClosed := True, closeFlag := True\<rparr>))"

subsection \<open>WSConn\<close>

definition WSConn_doDestroy :: "WSConn \<Rightarrow> WSConn outcome" where
  "WSConn_doDestroy c =
     (let c1 = c\<lparr>lingerZero := True, transportClosed := True\<rparr> in
      if \<not> closeFlag c1 then
        (if chanClosed c1 then Panics ''close of closed channel''
         else Return (c1\<lparr>chanClosed := True, closeFlag := True\<rparr>))
      else Return c1)"


definition WSConn_doWrite :: "byte list option \<Rightarrow> WSConn \<Rightarrow> WSConn outcome" where
  "WSConn_doWrite b c =
     (if length (writeChan c) = writeCap c then WSConn_doDestroy c
      else if chanClosed c then Panics ''send on closed channel''
      else Return (c\<lparr>writeChan := writeChan c @ [b]\<rparr>))"


text \<open>\<open>WSConn.WriteMsg\<close>: the flag is tested first; a single buffer is enqueued as it
  is, several are merged into a fresh one.\<close>

definition WSConn_WriteMsg :: "byte list list \<Rightarrow> WSConn
    \<Rightarrow> (net_error option \<times> WSConn) outcome" where
  "WSConn_WriteMsg args c =
     (if closeFlag c then Return (None, c)
      else let msgLen = sum_len 0 args in
        if msgLen > wsMaxMsgLen c then Return (Some MessageTooLong, c)
        else if msgLen < 1 then Return (Some MessageTooShort, c)
        else if length args = 1 then
          (case WSConn_doWrite (Some (args ! 0)) c of
             Panics s \<Rightarrow> Panics s
           | Return c1 \<Rightarrow> Return (None, c1))
        else case copy_args (replicate (unat msgLen) 0) 0 args of
               Panics s \<Rightarrow> Panics s
             | Return msg \<Rightarrow>
                 (case WSConn_doWrite (Some msg) c of
                    Panics s \<Rightarrow> Panics s
                  | Return c1 \<Rightarrow> Return (None, c1)))"


text \<open>A connection with an empty queue of capacity 100 (the default of the servers),
  as \<open>newTCPConn\<close> makes it.\<close>

definition open_conn :: "MsgParser \<Rightarrow> TCPConn" where
  "open_conn p = \<lparr>writeChan = [], writeCap = 100, chanClosed = False, closeFlag = False,
                   lingerZero = False, transportClosed = False, wire = [], msgParser = p\<rparr>"



subsection \<open>The states a connection can be in\<close>

text \<open>A connection is made by its constructor; after that the tasks holding it call
  \<open>Write\<close> (through \<open>WriteMsg\<close>), \<open>Close\<close> and \<open>Destroy\<close> under its lock, and the
  writer task takes its turns.\<close>

inductive TCPConn_reachable :: "TCPConn \<Rightarrow> bool" where
  tcp_new: "newTCPConn n p = Return c \<Longrightarrow> TCPConn_reachable c"
| tcp_write: "TCPConn_reachable c \<Longrightarrow> TCPConn_Write b c = Return c' \<Longrightarrow> TCPConn_reachable c'"
| tcp_close: "TCPConn_reachable c \<Longrightarrow> TCPConn_Close c = Return c' \<Longrightarrow> TCPConn_reachable c'"
| tcp_destroy: "TCPConn_reachable c \<Longrightarrow> TCPConn_Destroy c = Return c' \<Longrightarrow> TCPConn_reachable c'"
| tcp_writer: "TCPConn_reachable c \<Longrightarrow> TCPConn_reachable (TCPConn_writer ok c)"


section \<open>Channel RPC (chanrpc)\<close>

text \<open>A Go \<open>error\<close> is kept as its message and a recovered panic value as what
  \<open>%v\<close> prints for it. Besides returning or panicking, a channel operation can leave
  the task suspended.\<close>

type_synonym error = string

datatype 'a run = Finished 'a | Suspended | Panicked string

text \<open>The values behind \<open>interface{}\<close>: plain values, and the three callback shapes
  \<open>func(error)\<close>, \<open>func(interface{}, error)\<close> and
  \<open>func([]interface{}, error)\<close>, a callback being known by a number.\<close>

datatype cb_kind = CbErr | CbRetErr | CbRetsErr

datatype 'v any = Val 'v | Callback cb_kind nat

text \<open>What \<open>RetInfo.ret\<close> holds: nil, one value, or a slice.\<close>

datatype 'v ret_val = RetNil | RetOne "'v any" | RetMany "'v any list"

text \<open>A registered function in one of the three shapes; \<open>FOther\<close> is any other value
  of \<open>CallInfo.f\<close>.\<close>

datatype 'v func =
    F0 "'v any list \<Rightarrow> unit outcome"
  | F1 "'v any list \<Rightarrow> 'v any outcome"
  | FN "'v any list \<Rightarrow> 'v any list outcome"
  | FOther

record 'v RetInfo =
  ret :: "'v ret_val"
  err :: "error option"
  cb :: "'v any option"

text \<open>A buffered channel: contents, capacity, closed.\<close>

record 'a chan =
  buf :: "'a list"
  cap :: nat
  closed :: bool

text \<open>Reply channels are shared between a client and the calls it has issued, so they
  live in a store and are named by their address.\<close>

type_synonym 'v store = "nat \<Rightarrow> 'v RetInfo chan"

record 'v CallInfo =
  f :: "'v func"
  args :: "'v any list"
  chanRet :: "nat option"
  ci_cb :: "'v any option"

record ('id, 'v) Server =
  functions_map :: "'id \<rightharpoonup> 'v func"
  ChanCall :: "'v CallInfo chan"

record Client =
  chanSyncRet :: nat
  ChanAsynRet :: nat
  pendingAsynCall :: int

datatype 'a sent = Sent "'a chan" | Full | ClosedChan

definition send :: "'a chan \<Rightarrow> 'a \<Rightarrow> 'a sent" where
  "send ch x =
     (if closed ch then ClosedChan
      else if length (buf ch) < cap ch then Sent (ch\<lparr>buf := buf ch @ [x]\<rparr>)
      else Full)"

text \<open>What the callbacks and the logger are seen to do.\<close>

datatype 'v event = Invoke nat "'v ret_val option" "error option" | LogError string

text \<open>\<open>Server.ret\<close>: no reply slot, nothing to do; otherwise the callback is copied
  into the result and the result is sent. A send on a closed channel panics, the panic is
  recovered and becomes the returned error.\<close>

definition Server_ret :: "'v CallInfo \<Rightarrow> 'v RetInfo \<Rightarrow> 'v store
    \<Rightarrow> (error option \<times> 'v store) run" where
  "Server_ret ci ri st =
     (case chanRet ci of
        None \<Rightarrow> Finished (None, st)
      | Some r \<Rightarrow>
          (case send (st r) (ri\<lparr>cb := ci_cb ci\<rparr>) of
             Sent ch \<Rightarrow> Finished (None, st(r := ch))
           | Full \<Rightarrow> Suspended
           | ClosedChan \<Rightarrow> Finished (Some ''send on closed channel'', st)))"

text \<open>The call in the body of \<open>Server.exec\<close>, by the shape of \<open>ci.f\<close>; any other
  shape reaches \<open>panic("bug")\<close>.\<close>

definition call_f :: "'v CallInfo \<Rightarrow> 'v ret_val outcome" where
  "call_f ci =
     (case f ci of
        F0 g \<Rightarrow> (case g (args ci) of Panics r \<Rightarrow> Panics r | Return u \<Rightarrow> Return RetNil)
      | F1 g \<Rightarrow> (case g (args ci) of Panics r \<Rightarrow> Panics r | Return v \<Rightarrow> Return (RetOne v))
      | FN g \<Rightarrow> (case g (args ci) of Panics r \<Rightarrow> Panics r | Return vs \<Rightarrow> Return (RetMany vs))
      | FOther \<Rightarrow> Panics ''bug'')"

text \<open>The error a recovered panic is turned into: with \<open>conf.LenStackBuf > 0\<close> the
  value and as much of the stack trace as fits the buffer, else the value alone.\<close>

definition panic_error :: "int \<Rightarrow> string \<Rightarrow> string \<Rightarrow> error" where
  "panic_error LenStackBuf stack r =
     (if LenStackBuf > 0 then r @ '': '' @ take (nat LenStackBuf) stack else r)"

text \<open>\<open>Server.exec\<close>. On a panic the deferred function sets the returned error and
  calls \<open>ret\<close> with a second error, made by \<open>fmt.Errorf("%v", r)\<close>; what that call
  returns is dropped.\<close>

definition Server_exec :: "int \<Rightarrow> string \<Rightarrow> 'v CallInfo \<Rightarrow> 'v store
    \<Rightarrow> (error option \<times> 'v store) run" where
  "Server_exec LenStackBuf stack ci st =
     (case call_f ci of
        Return rv \<Rightarrow> Server_ret ci \<lparr>ret = rv, err = None, cb = None\<rparr> st
      | Panics r \<Rightarrow>
          (case Server_ret ci \<lparr>ret = RetNil, err = Some r, cb = None\<rparr> st of
             Finished (e, st1) \<Rightarrow> Finished (Some (panic_error LenStackBuf stack r), st1)
           | Suspended \<Rightarrow> Suspended
           | Panicked s \<Rightarrow> Panicked s))"

text \<open>\<open>Server.Exec\<close> logs the error.\<close>

definition Server_Exec :: "int \<Rightarrow> string \<Rightarrow> 'v CallInfo \<Rightarrow> 'v store
    \<Rightarrow> ('v event list \<times> 'v store) run" where
  "Server_Exec LenStackBuf stack ci st =
     (case Server_exec LenStackBuf stack ci st of
        Finished (None, st1) \<Rightarrow> Finished ([], st1)
      | Finished (Some e, st1) \<Rightarrow> Finished ([LogError e], st1)
      | Suspended \<Rightarrow> Suspended
      | Panicked s \<Rightarrow> Panicked s)"

text \<open>\<open>Client.f\<close>: the lookup with the shape test. \<open>srv\<close> is the server \<open>c.s\<close>
  points to, \<open>None\<close> for nil; \<open>pr\<close> prints an id as \<open>%v\<close> does. Callers use the
  function only when the error is nil, so the result is the error or the function (with
  the server it was found in).\<close>

definition Client_f :: "('id \<Rightarrow> string) \<Rightarrow> ('id, 'v) Server option \<Rightarrow> 'id \<Rightarrow> int
    \<Rightarrow> (error + 'v func \<times> ('id, 'v) Server) outcome" where
  "Client_f pr srv fid n =
     (case srv of
        None \<Rightarrow> Return (Inl ''server not attached'')
      | Some s \<Rightarrow>
          (case functions_map s fid of
             None \<Rightarrow> Return (Inl (''function id '' @ pr fid @ '': function not registered''))
           | Some g \<Rightarrow>
               if n \<noteq> 0 \<and> n \<noteq> 1 \<and> n \<noteq> 2 then Panics ''bug''
               else let ok = (case g of F0 h \<Rightarrow> n = 0 | F1 h \<Rightarrow> n = 1 | FN h \<Rightarrow> n = 2
                              | FOther \<Rightarrow> False)
                    in if ok then Return (Inr (g, s))
                       else Return (Inl (''function id '' @ pr fid @ '': return type mismatch''))))"

text \<open>\<open>Client.call\<close> with \<open>block\<close> false: the \<open>select\<close> with a default; a closed
  request queue makes the send panic, which is recovered into the error.\<close>

definition Client_call_nonblock :: "('id, 'v) Server \<Rightarrow> 'v CallInfo
    \<Rightarrow> error option \<times> ('id, 'v) Server" where
  "Client_call_nonblock s ci =
     (case send (ChanCall s) ci of
        Sent ch \<Rightarrow> (None, s\<lparr>ChanCall := ch\<rparr>)
      | Full \<Rightarrow> (Some ''chanrpc channel full'', s)
      | ClosedChan \<Rightarrow> (Some ''send on closed channel'', s))"

text \<open>The blocking send of an error result onto the client's own queue.\<close>

definition push_asyn :: "Client \<Rightarrow> 'v RetInfo \<Rightarrow> ('id, 'v) Server option \<Rightarrow> 'v store
    \<Rightarrow> (('id, 'v) Server option \<times> 'v store) run" where
  "push_asyn c ri srv st =
     (case send (st (ChanAsynRet c)) ri of
        Sent ch \<Rightarrow> Finished (srv, st(ChanAsynRet c := ch))
      | Full \<Rightarrow> Suspended
      | ClosedChan \<Rightarrow> Panicked ''send on closed channel'')"

definition Client_asynCall :: "('id \<Rightarrow> string) \<Rightarrow> Client \<Rightarrow> 'id \<Rightarrow> 'v any list
    \<Rightarrow> 'v any \<Rightarrow> int \<Rightarrow> ('id, 'v) Server option \<Rightarrow> 'v store
    \<Rightarrow> (('id, 'v) Server option \<times> 'v store) run" where
  "Client_asynCall pr c fid as cbv n srv st =
     (case Client_f pr srv fid n of
        Panics s \<Rightarrow> Panicked s
      | Return (Inl e) \<Rightarrow> push_asyn c \<lparr>ret = RetNil, err = Some e, cb = Some cbv\<rparr> srv st
      | Return (Inr (g, s)) \<Rightarrow>
          (case Client_call_nonblock s
                  \<lparr>f = g, args = as, chanRet = Some (ChanAsynRet c), ci_cb = Some cbv\<rparr> of
             (Some e, s1) \<Rightarrow>
               push_asyn c \<lparr>ret = RetNil, err = Some e, cb = Some cbv\<rparr> (Some s1) st
           | (None, s1) \<Rightarrow> Finished (Some s1, st)))"

text \<open>\<open>execCb\<close>: the callback is called by its shape, under a recover that logs. The
  slice shape goes through \<open>assert\<close>, whose type assertion panics on a result that is
  neither nil nor a slice. What the callback itself does is outside this model: only
  that it was called, and with what, is recorded.\<close>

definition execCb :: "int \<Rightarrow> string \<Rightarrow> 'v RetInfo \<Rightarrow> 'v event list" where
  "execCb LenStackBuf stack ri =
     (case cb ri of
        Some (Callback CbErr k) \<Rightarrow> [Invoke k None (err ri)]
      | Some (Callback CbRetErr k) \<Rightarrow> [Invoke k (Some (ret ri)) (err ri)]
      | Some (Callback CbRetsErr k) \<Rightarrow>
          (case ret ri of
             RetOne v \<Rightarrow> [LogError (panic_error LenStackBuf stack ''interface conversion'')]
           | r \<Rightarrow> [Invoke k (Some r) (err ri)])
      | other \<Rightarrow> [LogError (panic_error LenStackBuf stack ''bug'')])"

text \<open>\<open>Client.AsynCall\<close>: the last argument is the callback. The result is the
  server, the store and the client after the call, with what was observed.\<close>

definition Client_AsynCall :: "int \<Rightarrow> string \<Rightarrow> ('id \<Rightarrow> string) \<Rightarrow> 'id \<Rightarrow> 'v any list
    \<Rightarrow> Client \<Rightarrow> ('id, 'v) Server option \<Rightarrow> 'v store
    \<Rightarrow> (Client \<times> ('id, 'v) Server option \<times> 'v store \<times> 'v event list) run" where
  "Client_AsynCall LenStackBuf stack pr fid as0 c srv st =
     (if length as0 < 1 then Panicked ''callback function not found''
      else let as = butlast as0; cbv = last as0 in
        case cbv of
          Val v \<Rightarrow> Panicked ''definition of callback function is invalid''
        | Callback kind k \<Rightarrow>
            (let n = (case kind of CbErr \<Rightarrow> 0 | CbRetErr \<Rightarrow> 1 | CbRetsErr \<Rightarrow> 2) in
             if pendingAsynCall c \<ge> int (cap (st (ChanAsynRet c))) then
               Finished (c, srv, st,
                 execCb LenStackBuf stack \<lparr>ret = RetNil, err = Some ''too many calls'', cb = Some cbv\<rparr>)
             else case Client_asynCall pr c fid as cbv n srv st of
                    Finished (srv1, st1) \<Rightarrow>
                      Finished (c\<lparr>pendingAsynCall := pendingAsynCall c + 1\<rparr>, srv1, st1, [])
                  | Suspended \<Rightarrow> Suspended
                  | Panicked s \<Rightarrow> Panicked s))"

text \<open>\<open>Client.Cb\<close>.\<close>

definition Client_Cb :: "int \<Rightarrow> string \<Rightarrow> 'v RetInfo \<Rightarrow> Client \<Rightarrow> Client \<times> 'v event list" where
  "Client_Cb LenStackBuf stack ri c =
     (c\<lparr>pendingAsynCall := pendingAsynCall c - 1\<rparr>, execCb LenStackBuf stack ri)"

text \<open>A call whose function panics, a store of empty reply channels of one capacity,
  and a client that has one asynchronous call pending.\<close>

definition boom_call :: "unit CallInfo" where
  "boom_call = \<lparr>f = F0 (\<lambda>as. Panics ''boom''), args = [], chanRet = Some 0, ci_cb = None\<rparr>"

definition empty_store :: "nat \<Rightarrow> 'v store" where
  "empty_store n = (\<lambda>k. \<lparr>buf = [], cap = n, closed = False\<rparr>)"

definition busy_client :: Client where
  "busy_client = \<lparr>chanSyncRet = 0, ChanAsynRet = 1, pendingAsynCall = 1\<rparr>"

section \<open>The module registry (module)\<close>

text \<open>A registered module, as far as \<open>Destroy\<close> is concerned: what its \<open>OnDestroy\<close>
  does, return or panic with a value. The steps of the task running \<open>Destroy\<close> are
  recorded in order; a module is named by its index in \<open>mods\<close>.\<close>

record module =
  OnDestroy :: "unit outcome"

datatype mod_event =
    SendCloseSig nat bool
  | WaitRun nat
  | CallOnDestroy nat
  | LogPanic string

text \<open>\<open>Register\<close> appends to the global slice \<open>mods\<close>.\<close>

definition Register :: "module \<Rightarrow> module list \<Rightarrow> module list" where
  "Register m mods = mods @ [m]"

text \<open>\<open>destroy\<close>: the deferred function recovers and logs.\<close>

definition destroy :: "int \<Rightarrow> string \<Rightarrow> nat \<Rightarrow> module \<Rightarrow> mod_event list outcome" where
  "destroy LenStackBuf stack i m =
     (case OnDestroy m of
        Return u \<Rightarrow> Return [CallOnDestroy i]
      | Panics r \<Rightarrow> Return [CallOnDestroy i, LogPanic (panic_error LenStackBuf stack r)])"

text \<open>The loop of \<open>Destroy\<close>, \<open>for i := len(mods) - 1; i >= 0; i--\<close>: the send on
  the close signal, \<open>wg.Wait()\<close>, then \<open>destroy\<close>. A panic leaving \<open>destroy\<close> would
  end the loop.\<close>

function Destroy_from :: "int \<Rightarrow> string \<Rightarrow> int \<Rightarrow> module list \<Rightarrow> mod_event list outcome" where
  "Destroy_from LenStackBuf stack i mods =
     (if i \<ge> 0 then
        (if nat i \<ge> length mods then Panics ''index out of range''
         else case destroy LenStackBuf stack (nat i) (mods ! nat i) of
                Panics s \<Rightarrow> Panics s
              | Return evs \<Rightarrow>
                  (case Destroy_from LenStackBuf stack (i - 1) mods of
                     Panics s \<Rightarrow> Panics s
                   | Return rest \<Rightarrow>
                       Return ([SendCloseSig (nat i) True, WaitRun (nat i)] @ evs @ rest)))
      else Return [])"
  by pat_completeness auto
termination
  by (relation "measure (\<lambda>(L, s, i, mods). nat (i + 1))") auto

definition Destroy :: "int \<Rightarrow> string \<Rightarrow> module list \<Rightarrow> mod_event list outcome" where
  "Destroy LenStackBuf stack mods = Destroy_from LenStackBuf stack (int (length mods) - 1) mods"

section \<open>Cron expressions (timer)\<close>

type_synonym uint64 = "64 word"

record CronExpr =
  sec :: uint64
  min_m :: uint64
  hour :: uint64
  dom :: uint64
  month :: uint64
  dow :: uint64

datatype cron_error =
    FieldCount nat
  | TooManySlashes string
  | TooManyHyphens string
  | InvalidRange string
  | OutOfRange int int string
  | InvalidIncrement string

subsection \<open>The library functions the parser calls\<close>

text \<open>\<open>strings.Split\<close> with a one-byte separator: always at least one part.\<close>

fun split_on :: "char \<Rightarrow> string \<Rightarrow> string list" where
  "split_on c [] = [[]]"
| "split_on c (x # xs) =
     (if x = c then [] # split_on c xs
      else case split_on c xs of
             [] \<Rightarrow> [[x]]
           | w # ws \<Rightarrow> (x # w) # ws)"

text \<open>\<open>strings.Fields\<close>, for the white space of ASCII: the maximal runs of other
  bytes.\<close>

definition is_space :: "char \<Rightarrow> bool" where
  "is_space c = (c = CHR '' '' \<or> c = CHR 0x09 \<or> c = CHR 0x0A \<or> c = CHR 0x0B
                 \<or> c = CHR 0x0C \<or> c = CHR 0x0D)"

fun split_space :: "string \<Rightarrow> string list" where
  "split_space [] = [[]]"
| "split_space (x # xs) =
     (if is_space x then [] # split_space xs
      else case split_space xs of
             [] \<Rightarrow> [[x]]
           | w # ws \<Rightarrow> (x # w) # ws)"

definition Fields :: "string \<Rightarrow> string list" where
  "Fields s = filter (\<lambda>w. w \<noteq> []) (split_space s)"

text \<open>\<open>strconv.Atoi\<close> where \<open>int\<close> has 64 bits: an optional sign, then one or more
  decimal digits, and the value has to fit; anything else is an error.\<close>

fun digits_val :: "int \<Rightarrow> string \<Rightarrow> int option" where
  "digits_val acc [] = Some acc"
| "digits_val acc (c # cs) =
     (let n = (of_char c :: nat) in
      if 48 \<le> n \<and> n \<le> 57 then digits_val (acc * 10 + (int n - 48)) cs else None)"

definition Atoi :: "string \<Rightarrow> int option" where
  "Atoi s =
     (case s of
        [] \<Rightarrow> None
      | c # r \<Rightarrow>
          (let ds = (if c = CHR ''-'' \<or> c = CHR ''+'' then r else s) in
           if ds = [] then None
           else case digits_val 0 ds of
                  None \<Rightarrow> None
                | Some n \<Rightarrow>
                    (let v = (if c = CHR ''-'' then - n else n) in
                     if - (2 ^ 63) \<le> v \<and> v \<le> 2 ^ 63 - 1 then Some v else None)))"

text \<open>\<open>x << uint(i)\<close> on 64 bits: the count is converted to unsigned first, and a
  count of 64 or more gives zero.\<close>

definition shl :: "uint64 \<Rightarrow> int \<Rightarrow> uint64" where
  "shl x i = (let n = i mod 2 ^ 64 in if n \<ge> 64 then 0 else push_bit (nat n) x)"

text \<open>Addition on the 64-bit \<open>int\<close>.\<close>

definition wrap64 :: "int \<Rightarrow> int" where
  "wrap64 x = (x + 2 ^ 63) mod 2 ^ 64 - 2 ^ 63"

subsection \<open>parseCronField and NewCronExpr\<close>

text \<open>The range and the increment of one term of a field.\<close>

definition parse_range :: "string \<Rightarrow> nat \<Rightarrow> int \<Rightarrow> int \<Rightarrow> cron_error + int \<times> int" where
  "parse_range r0 nIncr mn mx =
     (let startAndEnd = split_on CHR ''-'' r0 in
      if length startAndEnd > 2 then Inl (TooManyHyphens r0)
      else if hd startAndEnd = ''*'' then
        (if length startAndEnd \<noteq> 1 then Inl (InvalidRange r0) else Inr (mn, mx))
      else (case Atoi (hd startAndEnd) of
              None \<Rightarrow> Inl (InvalidRange r0)
            | Some start \<Rightarrow>
                if length startAndEnd = 1 then
                  (if nIncr = 2 then Inr (start, mx) else Inr (start, start))
                else (case Atoi (startAndEnd ! 1) of
                        None \<Rightarrow> Inl (InvalidRange r0)
                      | Some endv \<Rightarrow> Inr (start, endv))))"

definition parse_term :: "string \<Rightarrow> int \<Rightarrow> int \<Rightarrow> cron_error + int \<times> int \<times> int" where
  "parse_term field mn mx =
     (let rangeAndIncr = split_on CHR ''/'' field in
      if length rangeAndIncr > 2 then Inl (TooManySlashes field)
      else (case parse_range (hd rangeAndIncr) (length rangeAndIncr) mn mx of
              Inl e \<Rightarrow> Inl e
            | Inr (start, endv) \<Rightarrow>
                if start > endv then Inl (InvalidRange (hd rangeAndIncr))
                else if start < mn then Inl (OutOfRange mn mx (hd rangeAndIncr))
                else if endv > mx then Inl (OutOfRange mn mx (hd rangeAndIncr))
                else if length rangeAndIncr = 1 then Inr (start, endv, 1)
                else (case Atoi (rangeAndIncr ! 1) of
                        None \<Rightarrow> Inl (InvalidIncrement (rangeAndIncr ! 1))
                      | Some incr \<Rightarrow>
                          if incr \<le> 0 then Inl (InvalidIncrement (rangeAndIncr ! 1))
                          else Inr (start, endv, incr))))"

text \<open>The loop \<open>for i := start; i <= endv; i += incr\<close>; \<open>i\<close> is a 64-bit \<open>int\<close>
  and the addition wraps.\<close>

partial_function (option) step_bits :: "int \<Rightarrow> int \<Rightarrow> int \<Rightarrow> uint64 \<Rightarrow> uint64 option" where
  "step_bits i endv incr cronField =
     (if i \<le> endv then step_bits (wrap64 (i + incr)) endv incr (cronField OR shl 1 i)
      else Some cronField)"

declare step_bits.simps [code]

definition range_bits :: "int \<Rightarrow> int \<Rightarrow> uint64" where
  "range_bits start endv = NOT (shl (- 1) (endv + 1)) AND shl (- 1) start"

fun parse_terms :: "string list \<Rightarrow> int \<Rightarrow> int \<Rightarrow> uint64 \<Rightarrow> (cron_error + uint64) option" where
  "parse_terms [] mn mx cronField = Some (Inr cronField)"
| "parse_terms (field # flds) mn mx cronField =
     (case parse_term field mn mx of
        Inl e \<Rightarrow> Some (Inl e)
      | Inr (start, endv, incr) \<Rightarrow>
          if incr = 1 then parse_terms flds mn mx (cronField OR range_bits start endv)
          else (case step_bits start endv incr cronField of
                  None \<Rightarrow> None
                | Some cf \<Rightarrow> parse_terms flds mn mx cf))"

definition parseCronField :: "string \<Rightarrow> int \<Rightarrow> int \<Rightarrow> (cron_error + uint64) option" where
  "parseCronField field mn mx = parse_terms (split_on CHR '','' field) mn mx 0"

text \<open>\<open>NewCronExpr\<close>; the second component of an error is the one it wraps.\<close>

definition NewCronExpr :: "string \<Rightarrow> (cron_error + CronExpr) option" where
  "NewCronExpr expr =
     (let fields0 = Fields expr in
      if length fields0 \<noteq> 5 \<and> length fields0 \<noteq> 6 then Some (Inl (FieldCount (length fields0)))
      else let flds = (if length fields0 = 5 then ''0'' # fields0 else fields0) in
        case parseCronField (flds ! 0) 0 59 of None \<Rightarrow> None | Some (Inl e) \<Rightarrow> Some (Inl e)
        | Some (Inr s) \<Rightarrow>
        (case parseCronField (flds ! 1) 0 59 of None \<Rightarrow> None | Some (Inl e) \<Rightarrow> Some (Inl e)
        | Some (Inr mi) \<Rightarrow>
        (case parseCronField (flds ! 2) 0 23 of None \<Rightarrow> None | Some (Inl e) \<Rightarrow> Some (Inl e)
        | Some (Inr h) \<Rightarrow>
        (case parseCronField (flds ! 3) 1 31 of None \<Rightarrow> None | Some (Inl e) \<Rightarrow> Some (Inl e)
        | Some (Inr d) \<Rightarrow>
        (case parseCronField (flds ! 4) 1 12 of None \<Rightarrow> None | Some (Inl e) \<Rightarrow> Some (Inl e)
        | Some (Inr mo) \<Rightarrow>
        (case parseCronField (flds ! 5) 0 6 of None \<Rightarrow> None | Some (Inl e) \<Rightarrow> Some (Inl e)
        | Some (Inr w) \<Rightarrow>
            Some (Inr \<lparr>sec = s, min_m = mi, hour = h, dom = d, month = mo, dow = w\<rparr>)))))))"

subsection \<open>Instants (time.Time in UTC)\<close>

text \<open>An instant is kept as its calendar and clock reading in UTC, which is what the
  methods \<open>Year\<close>, \<open>Month\<close>, \<open>Day\<close>, \<open>Hour\<close>, \<open>Minute\<close>, \<open>Second\<close> and
  \<open>Nanosecond\<close> return. The zero instant is January 1 of year 1, 00:00:00.\<close>

record Time =
  Year :: int
  Month :: int
  Day :: int
  Hour :: int
  Minute :: int
  Second :: int
  Nanosecond :: int

definition zero_Time :: Time where
  "zero_Time = \<lparr>Year = 1, Month = 1, Day = 1, Hour = 0, Minute = 0, Second = 0, Nanosecond = 0\<rparr>"

definition is_leap :: "int \<Rightarrow> bool" where
  "is_leap y = (y mod 4 = 0 \<and> (y mod 100 \<noteq> 0 \<or> y mod 400 = 0))"

definition days_in :: "int \<Rightarrow> int \<Rightarrow> int" where
  "days_in m y =
     (if m = 4 \<or> m = 6 \<or> m = 9 \<or> m = 11 then 30
      else if m = 2 then (if is_leap y then 29 else 28)
      else 31)"

definition valid_Time :: "Time \<Rightarrow> bool" where
  "valid_Time t =
     (1 \<le> Month t \<and> Month t \<le> 12 \<and> 1 \<le> Day t \<and> Day t \<le> days_in (Month t) (Year t)
      \<and> 0 \<le> Hour t \<and> Hour t \<le> 23 \<and> 0 \<le> Minute t \<and> Minute t \<le> 59
      \<and> 0 \<le> Second t \<and> Second t \<le> 59 \<and> 0 \<le> Nanosecond t \<and> Nanosecond t \<le> 999999999)"

text \<open>Days since the zero instant, seconds of the day, and the position of an instant on
  the time line in nanoseconds; \<open>After\<close> and \<open>Before\<close> compare positions.\<close>

definition days_before_year :: "int \<Rightarrow> int" where
  "days_before_year y = 365 * (y - 1) + (y - 1) div 4 - (y - 1) div 100 + (y - 1) div 400"

definition days_before_month :: "int \<Rightarrow> int \<Rightarrow> int" where
  "days_before_month m y = sum_list (map (\<lambda>k. days_in k y) [1..m - 1])"

definition day_number :: "Time \<Rightarrow> int" where
  "day_number t = days_before_year (Year t) + days_before_month (Month t) (Year t) + (Day t - 1)"

definition clock :: "Time \<Rightarrow> int" where
  "clock t = Hour t * 3600 + Minute t * 60 + Second t"

definition abs_nanos :: "Time \<Rightarrow> int" where
  "abs_nanos t = (day_number t * 86400 + clock t) * 1000000000 + Nanosecond t"

definition After :: "Time \<Rightarrow> Time \<Rightarrow> bool" where
  "After t u = (abs_nanos t > abs_nanos u)"

text \<open>The zero instant was a Monday; Sunday is 0.\<close>

definition Weekday :: "Time \<Rightarrow> int" where
  "Weekday t = (day_number t + 1) mod 7"

text \<open>\<open>time.Date\<close>: a month outside 1..12 moves the year, a day outside the month moves
  on into the following or preceding months. The clock values are handed through: every
  caller below passes values inside their ranges.\<close>

definition norm_month :: "int \<Rightarrow> int \<Rightarrow> int \<times> int" where
  "norm_month y m = (y + (m - 1) div 12, (m - 1) mod 12 + 1)"

function norm_day :: "int \<Rightarrow> int \<Rightarrow> int \<Rightarrow> int \<times> int \<times> int" where
  "norm_day y m d =
     (if d < 1 then
        (case norm_month y (m - 1) of (y1, m1) \<Rightarrow> norm_day y1 m1 (d + days_in m1 y1))
      else if d > days_in m y then
        (case norm_month y (m + 1) of (y1, m1) \<Rightarrow> norm_day y1 m1 (d - days_in m y))
      else (y, m, d))"
  by pat_completeness auto
termination
  by (relation "measure (\<lambda>(y, m, d). if d < 1 then nat (1 - d) + 31 else nat d)")
     (auto simp: days_in_def norm_month_def split: if_splits)

definition Date :: "int \<Rightarrow> int \<Rightarrow> int \<Rightarrow> int \<Rightarrow> int \<Rightarrow> int \<Rightarrow> int \<Rightarrow> Time" where
  "Date y m d h mi s ns =
     (case norm_month y m of (y1, m1) \<Rightarrow>
        case norm_day y1 m1 d of (y2, m2, d2) \<Rightarrow>
          \<lparr>Year = y2, Month = m2, Day = d2, Hour = h, Minute = mi, Second = s, Nanosecond = ns\<rparr>)"

definition AddDate :: "int \<Rightarrow> int \<Rightarrow> int \<Rightarrow> Time \<Rightarrow> Time" where
  "AddDate years months days t =
     Date (Year t + years) (Month t + months) (Day t + days)
          (Hour t) (Minute t) (Second t) (Nanosecond t)"

text \<open>\<open>t.Add(d)\<close> and \<open>t.Truncate(d)\<close> for a duration of \<open>d\<close> whole seconds;
  \<open>Truncate\<close> is used with durations that divide a day, so that the multiples of \<open>d\<close>
  since the zero instant are the multiples of \<open>d\<close> since midnight.\<close>

definition Add :: "int \<Rightarrow> Time \<Rightarrow> Time" where
  "Add d t =
     (let total = clock t + d; r = total mod 86400 in
      Date (Year t) (Month t) (Day t + total div 86400)
           (r div 3600) (r mod 3600 div 60) (r mod 60) (Nanosecond t))"

definition Truncate :: "int \<Rightarrow> Time \<Rightarrow> Time" where
  "Truncate d t =
     (let r = clock t - clock t mod d in
      t\<lparr>Hour := r div 3600, Minute := r mod 3600 div 60, Second := r mod 60, Nanosecond := 0\<rparr>)"

definition Second_d :: int where "Second_d = 1"
definition Minute_d :: int where "Minute_d = 60"
definition Hour_d :: int where "Hour_d = 3600"

subsection \<open>matchDay and Next\<close>

definition matchDay :: "CronExpr \<Rightarrow> Time \<Rightarrow> bool" where
  "matchDay e t =
     (if dom e = 0xfffffffe then shl 1 (Weekday t) AND dow e \<noteq> 0
      else if dow e = 0x7f then shl 1 (Day t) AND dom e \<noteq> 0
      else shl 1 (Weekday t) AND dow e \<noteq> 0 \<or> shl 1 (Day t) AND dom e \<noteq> 0)"

text \<open>Each of the five loops of \<open>Next\<close> either falls through to the code after it, with
  the instant and \<open>initFlag\<close> it has reached, or jumps back to \<open>retry\<close>; the flag is
  set on every path that jumps.\<close>

datatype loop_exit = Through Time bool | Retry Time

partial_function (option) month_loop :: "CronExpr \<Rightarrow> Time \<Rightarrow> bool \<Rightarrow> loop_exit option" where
  "month_loop e t initFlag =
     (if shl 1 (Month t) AND month e = 0 then
        (let t1 = (if \<not> initFlag then Date (Year t) (Month t) 1 0 0 0 0 else t);
             t2 = AddDate 0 1 0 t1 in
         if Month t2 = 1 then Some (Retry t2) else month_loop e t2 True)
      else Some (Through t initFlag))"

declare month_loop.simps [code]

partial_function (option) day_loop :: "CronExpr \<Rightarrow> Time \<Rightarrow> bool \<Rightarrow> loop_exit option" where
  "day_loop e t initFlag =
     (if \<not> matchDay e t then
        (let t1 = (if \<not> initFlag then Date (Year t) (Month t) (Day t) 0 0 0 0 else t);
             t2 = AddDate 0 0 1 t1 in
         if Day t2 = 1 then Some (Retry t2) else day_loop e t2 True)
      else Some (Through t initFlag))"

declare day_loop.simps [code]

partial_function (option) hour_loop :: "CronExpr \<Rightarrow> Time \<Rightarrow> bool \<Rightarrow> loop_exit option" where
  "hour_loop e t initFlag =
     (if shl 1 (Hour t) AND hour e = 0 then
        (let t1 = (if \<not> initFlag then Truncate Hour_d t else t);
             t2 = Add Hour_d t1 in
         if Hour t2 = 0 then Some (Retry t2) else hour_loop e t2 True)
      else Some (Through t initFlag))"

declare hour_loop.simps [code]

partial_function (option) minute_loop :: "CronExpr \<Rightarrow> Time \<Rightarrow> bool \<Rightarrow> loop_exit option" where
  "minute_loop e t initFlag =
     (if shl 1 (Minute t) AND min_m e = 0 then
        (let t1 = (if \<not> initFlag then Truncate Minute_d t else t);
             t2 = Add Minute_d t1 in
         if Minute t2 = 0 then Some (Retry t2) else minute_loop e t2 True)
      else Some (Through t initFlag))"

declare minute_loop.simps [code]

partial_function (option) second_loop :: "CronExpr \<Rightarrow> Time \<Rightarrow> bool \<Rightarrow> loop_exit option" where
  "second_loop e t initFlag =
     (if shl 1 (Second t) AND sec e = 0 then
        (let t2 = Add Second_d t in
         if Second t2 = 0 then Some (Retry t2) else second_loop e t2 True)
      else Some (Through t initFlag))"

declare second_loop.simps [code]

text \<open>The code from the label \<open>retry\<close> on.\<close>

partial_function (option) retry :: "CronExpr \<Rightarrow> int \<Rightarrow> Time \<Rightarrow> bool \<Rightarrow> Time option" where
  "retry e year t initFlag =
     (if Year t > year + 1 then Some zero_Time
      else case month_loop e t initFlag of
        None \<Rightarrow> None
      | Some (Retry t') \<Rightarrow> retry e year t' True
      | Some (Through t1 f1) \<Rightarrow>
      (case day_loop e t1 f1 of
        None \<Rightarrow> None
      | Some (Retry t') \<Rightarrow> retry e year t' True
      | Some (Through t2 f2) \<Rightarrow>
      (case hour_loop e t2 f2 of
        None \<Rightarrow> None
      | Some (Retry t') \<Rightarrow> retry e year t' True
      | Some (Through t3 f3) \<Rightarrow>
      (case minute_loop e t3 f3 of
        None \<Rightarrow> None
      | Some (Retry t') \<Rightarrow> retry e year t' True
      | Some (Through t4 f4) \<Rightarrow>
      (case second_loop e t4 f4 of
        None \<Rightarrow> None
      | Some (Retry t') \<Rightarrow> retry e year t' True
      | Some (Through t5 f5) \<Rightarrow> Some t5)))))"

declare retry.simps [code]

definition Next :: "CronExpr \<Rightarrow> Time \<Rightarrow> Time option" where
  "Next e t =
     (let t0 = Add Second_d (Truncate Second_d t) in
      retry e (Year t0) t0 False)"

section \<open>Properties of the framing codec\<close>

lemma sum_len_eq: "sum_len acc bs = acc + of_nat (length (concat bs))"
  by (induction bs arbitrary: acc) (auto simp: algebra_simps)

lemma copy_args_ok:
  "0 \<le> l \<Longrightarrow> nat l + length (concat bs) = length msg \<Longrightarrow>
   copy_args msg l bs = Return (take (nat l) msg @ concat bs)"
proof (induction bs arbitrary: msg l)
  case Nil then show ?case by simp
next
  case (Cons a as)
  define pre where "pre = take (nat l) msg"
  have lp: "length pre = nat l" using Cons.prems by (simp add: pre_def)
  have k: "min (length msg - nat l) (length a) = length a" using Cons.prems by auto
  have le: "\<not> int (length msg) < l" using Cons.prems by linarith
  have "copy_args msg l (a # as) =
        copy_args (pre @ a @ drop (nat l + length a) msg) (l + int (length a)) as"
    using Cons.prems le by (simp add: k Let_def pre_def)
  also have "\<dots> = Return (take (nat (l + int (length a))) (pre @ a @ drop (nat l + length a) msg) @ concat as)"
    using Cons.prems lp by (intro Cons.IH) (auto simp: nat_add_distrib)
  also have "take (nat (l + int (length a))) (pre @ a @ drop (nat l + length a) msg) = pre @ a"
    using Cons.prems lp by (simp add: nat_add_distrib)
  finally show ?case by (simp add: pre_def)
qed

lemma byte_of_drop32: "(of_nat (unat (w :: 32 word) div 2 ^ k) :: byte) = ucast (drop_bit k w)"
  by (simp add: word_unat_eq_iff unsigned_ucast_eq take_bit_eq_mod unat_drop_bit_eq unat_of_nat) (simp add: drop_bit_eq_div)

lemma byte_of_drop16: "(of_nat (unat (w :: 16 word) div 2 ^ k) :: byte) = ucast (drop_bit k w)"
  by (simp add: word_unat_eq_iff unsigned_ucast_eq take_bit_eq_mod unat_drop_bit_eq unat_of_nat) (simp add: drop_bit_eq_div)

lemmas byte_drops = byte_of_drop32 [of _ 8, simplified] byte_of_drop32 [of _ 16, simplified]
  byte_of_drop32 [of _ 24, simplified] byte_of_drop16 [of _ 8, simplified]

lemma be16_rt: "be_uint16 (be_put16 (x # y # r) v) = v"
  unfolding be_uint16_def be_put16_def
  by (simp, rule bit_word_eqI) (auto simp: bit_simps)

lemma le16_rt: "le_uint16 (le_put16 (x # y # r) v) = v"
  unfolding le_uint16_def le_put16_def
  by (simp, rule bit_word_eqI) (auto simp: bit_simps)

lemma be32_rt: "be_uint32 (be_put32 (x # y # z # u # r) v) = v"
  unfolding be_uint32_def be_put32_def
  apply (simp, rule bit_word_eqI)
  subgoal for n
    by (cases "n < 8"; cases "n < 16"; cases "n < 24") (auto simp: bit_simps)
  done

lemma le32_rt: "le_uint32 (le_put32 (x # y # z # u # r) v) = v"
  unfolding le_uint32_def le_put32_def
  apply (simp, rule bit_word_eqI)
  subgoal for n
    by (cases "n < 8"; cases "n < 16"; cases "n < 24") (auto simp: bit_simps)
  done


lemma unat_of_nat32: "n < 2 ^ 32 \<Longrightarrow> unat (of_nat n :: 32 word) = n"
  by (simp add: unat_of_nat)

lemma ucast_8_16_32: "(ucast (ucast (m :: 32 word) :: 16 word) :: byte) = ucast m"
  by (rule bit_word_eqI) (auto simp: bit_simps)

lemma unat16_of32: "unat (ucast (w :: 32 word) :: 16 word) = unat w mod 65536"
  by (simp add: unsigned_ucast_eq take_bit_eq_mod)

lemma put_len_hdr:
  assumes w: "lenMsgLen p = 1 \<or> lenMsgLen p = 2 \<or> lenMsgLen p = 4"
    and fit: "unat m < 2 ^ (8 * nat (lenMsgLen p))"
  shows "put_len p m (replicate (nat (lenMsgLen p) + n) 0) = Return (hdr_bytes p m @ replicate n 0)"
proof -
  consider "lenMsgLen p = 1" | "lenMsgLen p = 2" | "lenMsgLen p = 4" using w by blast
  then show ?thesis
  proof cases
    case 1
    then show ?thesis
      by (simp add: put_len_def hdr_bytes_def encode_len_def Let_def)
  next
    case 2
    have "unat m mod 65536 = unat m" using fit 2 by simp
    then have "unat m = unat (ucast m :: 16 word)" by (simp add: unat16_of32)
    then have e: "(of_nat (unat m div 256) :: byte) = ucast (drop_bit 8 (ucast m :: 16 word))"
      by (simp add: byte_drops)
    have u: "[0..<2] = [0, Suc 0]" by (simp add: upt_rec)
    from 2 e show ?thesis
      by (simp add: put_len_def hdr_bytes_def encode_len_def Let_def be_put16_def le_put16_def u ucast_8_16_32)
  next
    case 3
    show ?thesis
    proof -
      have u: "[0..<4] = [0, Suc 0, 2, 3]" by (simp add: upt_rec)
      have r: "replicate (4 + n) (0::byte) = 0 # 0 # 0 # 0 # replicate n 0"
        by (simp add: numeral_eq_Suc)
      from 3 show ?thesis
        by (simp add: put_len_def hdr_bytes_def encode_len_def Let_def be_put32_def le_put32_def
          byte_drops u r numeral_2_eq_2 numeral_3_eq_3)
    qed
  qed
qed


lemma hdr_len: "0 \<le> lenMsgLen p \<Longrightarrow> length (hdr_bytes p m) = nat (lenMsgLen p)"
  by (simp add: hdr_bytes_def encode_len_def Let_def)

lemma frame_ok:
  assumes w: "lenMsgLen p = 1 \<or> lenMsgLen p = 2 \<or> lenMsgLen p = 4"
    and mx: "unat (maxMsgLen p) < 2 ^ (8 * nat (lenMsgLen p))"
    and lo: "unat (minMsgLen p) \<le> length (concat bs)"
    and hi: "length (concat bs) \<le> unat (maxMsgLen p)"
    and room: "nat (lenMsgLen p) + length (concat bs) < 2 ^ 32"
  shows "frame p bs = Return (Inr (encode_len (nat (lenMsgLen p)) (littleEndian p) (length (concat bs)) @ concat bs))"
proof -
  let ?n = "length (concat bs)"
  let ?m = "of_nat ?n :: uint32"
  have n32: "?n < 2 ^ 32" using room by simp
  have um: "unat ?m = ?n" using n32 by (simp add: unat_of_nat)
  have s: "sum_len 0 bs = ?m" by (simp add: sum_len_eq)
  have c1: "\<not> ?m > maxMsgLen p" using hi um by (simp add: word_less_nat_alt)
  have c2: "\<not> ?m < minMsgLen p" using lo um by (simp add: word_less_nat_alt)
  have wl: "unat (word_of_int (lenMsgLen p) + ?m :: uint32) = nat (lenMsgLen p) + ?n"
  proof -
    have "(word_of_int (lenMsgLen p) :: uint32) = of_nat (nat (lenMsgLen p))" using w by auto
    then have "word_of_int (lenMsgLen p) + ?m = (of_nat (nat (lenMsgLen p) + ?n) :: uint32)" by simp
    then show ?thesis using room by (simp only: unat_of_nat) simp
  qed
  have fit: "unat ?m < 2 ^ (8 * nat (lenMsgLen p))" using hi mx um by simp
  have pl: "put_len p ?m (replicate (nat (lenMsgLen p) + ?n) 0) = Return (hdr_bytes p ?m @ replicate ?n 0)"
    by (rule put_len_hdr [OF w fit])
  have w0: "0 \<le> lenMsgLen p" using w by auto
  have cp: "copy_args (hdr_bytes p ?m @ replicate ?n 0) (lenMsgLen p) bs
        = Return (take (nat (lenMsgLen p)) (hdr_bytes p ?m @ replicate ?n 0) @ concat bs)"
    by (rule copy_args_ok [OF w0]) (simp add: hdr_len [OF w0])
  show ?thesis
    using c1 c2 by (simp add: frame_def s wl pl cp hdr_len [OF w0] Let_def) (simp add: hdr_bytes_def um)
qed


lemma ucast_back8: "unat (m :: uint32) < 256 \<Longrightarrow> (ucast (ucast m :: byte) :: uint32) = m"
  by (simp add: word_unat_eq_iff unsigned_ucast_eq take_bit_eq_mod unat_mod_distrib)

lemma ucast_back16: "unat (m :: uint32) < 65536 \<Longrightarrow> (ucast (ucast m :: 16 word) :: uint32) = m"
  by (simp add: word_unat_eq_iff unsigned_ucast_eq take_bit_eq_mod unat_mod_distrib)

lemma parse_hdr:
  assumes w: "lenMsgLen p = 1 \<or> lenMsgLen p = 2 \<or> lenMsgLen p = 4"
    and fit: "unat m < 2 ^ (8 * nat (lenMsgLen p))"
  shows "parse_len p (hdr_bytes p m) = m"
proof -
  have pl: "put_len p m (replicate (nat (lenMsgLen p) + 0) 0) = Return (hdr_bytes p m @ replicate 0 0)"
    by (rule put_len_hdr [OF w fit])
  consider "lenMsgLen p = 1" | "lenMsgLen p = 2" | "lenMsgLen p = 4" using w by blast
  then show ?thesis
  proof cases
    case 1
    with pl have "hdr_bytes p m = [ucast m]" by (simp add: put_len_def)
    with 1 fit show ?thesis
      by (simp add: parse_len_def ucast_back8)
  next
    case 2
    have r: "replicate 2 (0::byte) = [0, 0]" by (simp add: numeral_eq_Suc)
    from 2 pl have "hdr_bytes p m = (if littleEndian p then le_put16 [0, 0] (ucast m) else be_put16 [0, 0] (ucast m))"
      by (simp add: put_len_def r)
    with 2 fit show ?thesis
      by (simp add: parse_len_def be16_rt le16_rt ucast_back16)
  next
    case 3
    have r: "replicate 4 (0::byte) = [0, 0, 0, 0]" by (simp add: numeral_eq_Suc)
    from 3 pl have "hdr_bytes p m = (if littleEndian p then le_put32 [0, 0, 0, 0] m else be_put32 [0, 0, 0, 0] m)"
      by (simp add: put_len_def r)
    with 3 show ?thesis
      by (simp add: parse_len_def be32_rt le32_rt)
  qed
qed

lemma ReadFull_append: "length a = n \<Longrightarrow> ReadFull n (a @ r) = (Inr a, r)"
  by (simp add: ReadFull_def)

lemma read_ok:
  assumes w: "lenMsgLen p = 1 \<or> lenMsgLen p = 2 \<or> lenMsgLen p = 4"
    and mx: "unat (maxMsgLen p) < 2 ^ (8 * nat (lenMsgLen p))"
    and lo: "unat (minMsgLen p) \<le> length payload"
    and hi: "length payload \<le> unat (maxMsgLen p)"
  shows "MsgParser_Read p (encode_len (nat (lenMsgLen p)) (littleEndian p) (length payload) @ payload @ rest)
         = Return (Inr payload, rest)"
proof -
  let ?n = "length payload"
  let ?m = "of_nat ?n :: uint32"
  have "unat (maxMsgLen p) < 2 ^ 32" using unsigned_less [of "maxMsgLen p"] by simp
  then have n32: "?n < 2 ^ 32" using hi by simp
  have um: "unat ?m = ?n" using n32 by (simp add: unat_of_nat)
  have fit: "unat ?m < 2 ^ (8 * nat (lenMsgLen p))" using hi mx um by simp
  have w0: "0 \<le> lenMsgLen p" "\<not> lenMsgLen p < 0" "\<not> 4 < lenMsgLen p" using w by auto
  have h: "encode_len (nat (lenMsgLen p)) (littleEndian p) ?n = hdr_bytes p ?m"
    by (simp add: hdr_bytes_def um)
  have c1: "\<not> ?m > maxMsgLen p" using hi um by (simp add: word_less_nat_alt)
  have c2: "\<not> ?m < minMsgLen p" using lo um by (simp add: word_less_nat_alt)
  show ?thesis
    unfolding h MsgParser_Read_def
    using c1 c2 w0
    by (simp add: ReadFull_append [OF hdr_len [OF w0(1)]] parse_hdr [OF w fit] um
        ReadFull_append [OF refl] Let_def)
qed

text \<open>Framing round trip, as far as it holds: a parser whose width is 1, 2 or 4 and
  whose maximum fits the header frames every vector of buffers whose total length lies
  between the minimum and the maximum into the header followed by the bytes, provided
  header and payload together stay below \<open>2^32\<close> bytes; and \<open>Read\<close> gives the payload
  back from those bytes.\<close>

lemma framing_round_trip:
  assumes w: "lenMsgLen p = 1 \<or> lenMsgLen p = 2 \<or> lenMsgLen p = 4"
    and mx: "unat (maxMsgLen p) < 2 ^ (8 * nat (lenMsgLen p))"
    and lo: "unat (minMsgLen p) \<le> length payload"
    and hi: "length payload \<le> unat (maxMsgLen p)"
    and room: "nat (lenMsgLen p) + length payload < 2 ^ 32"
  shows "frame p [payload]
           = Return (Inr (encode_len (nat (lenMsgLen p)) (littleEndian p) (length payload) @ payload))
         \<and> MsgParser_Read p
              (encode_len (nat (lenMsgLen p)) (littleEndian p) (length payload) @ payload)
           = Return (Inr payload, [])"
  using frame_ok [of p "[payload]"] read_ok [of p payload "[]"] assms by simp

lemma SetMsgLen_2_1_8:
  "SetMsgLen 2 1 8 NewMsgParser
     = \<lparr>lenMsgLen = 2, minMsgLen = 1, maxMsgLen = 8, littleEndian = False\<rparr>"
  by (simp add: SetMsgLen_def NewMsgParser_def width_max_def Let_def)

lemma S1_framing:
  "frame (SetByteOrder False (SetMsgLen 2 1 8 NewMsgParser)) [[0x41, 0x42, 0x43]]
     = Return (Inr [0x00, 0x03, 0x41, 0x42, 0x43])
   \<and> MsgParser_Read (SetByteOrder False (SetMsgLen 2 1 8 NewMsgParser))
       [0x00, 0x03, 0x41, 0x42, 0x43] = Return (Inr [0x41, 0x42, 0x43], [])"
proof -
  let ?p = "SetByteOrder False (SetMsgLen 2 1 8 NewMsgParser)"
  have p: "?p = \<lparr>lenMsgLen = 2, minMsgLen = 1, maxMsgLen = 8, littleEndian = False\<rparr>"
    by (simp add: SetMsgLen_2_1_8 SetByteOrder_def)
  have e: "encode_len 2 False (Suc (Suc (Suc 0))) = [0x00, 0x03]"
    by (simp add: encode_len_def upt_rec)
  from framing_round_trip [of ?p "[0x41, 0x42, 0x43]"] show ?thesis
    unfolding p by (simp add: e)
qed

lemma SetMsgLen_4_max:
  "SetMsgLen 4 1 0xFFFFFFFF NewMsgParser
     = \<lparr>lenMsgLen = 4, minMsgLen = 1, maxMsgLen = 0xFFFFFFFF, littleEndian = False\<rparr>"
  by (simp add: SetMsgLen_def NewMsgParser_def width_max_def Let_def)

lemma frame_overflow:
  "frame (SetMsgLen 4 1 0xFFFFFFFF NewMsgParser) [replicate 4294967292 0]
     = Panics ''index out of range''"
  by (simp add: SetMsgLen_4_max frame_def sum_len_eq put_len_def Let_def)

text \<open>Claim C1. Every payload between the minimum and the maximum is written as the
  header followed by the payload and read back unchanged. The code does not do this for
  every such payload: with width 4 the maximum may be \<open>2^32 - 1\<close>, and for a payload of
  \<open>2^32 - 4\<close> zero bytes the size of the buffer, header plus payload in \<open>uint32\<close>,
  wraps to 0, so that writing the header panics and nothing is written.\<close>

theorem Write_buffer_size_wraps:
  "unat (minMsgLen (SetMsgLen 4 1 0xFFFFFFFF NewMsgParser)) \<le> length (replicate 4294967292 (0::byte))
   \<and> length (replicate 4294967292 (0::byte)) \<le> unat (maxMsgLen (SetMsgLen 4 1 0xFFFFFFFF NewMsgParser))
   \<and> MsgParser_Write (SetMsgLen 4 1 0xFFFFFFFF NewMsgParser)
        \<lparr>writeChan = [], writeCap = 100, chanClosed = False, closeFlag = False,
         lingerZero = False, transportClosed = False, wire = [],
         msgParser = SetMsgLen 4 1 0xFFFFFFFF NewMsgParser\<rparr>
        [replicate 4294967292 0]
      = Panics ''index out of range''"
  by (simp add: MsgParser_Write_def frame_overflow) (simp add: SetMsgLen_4_max)

subsection \<open>SetMsgLen\<close>

lemma width_max_bound: "unat (width_max w) \<le> 2 ^ (8 * nat w) - 1"
  by (auto simp: width_max_def)

lemma SetMsgLen_fields:
  "lenMsgLen (SetMsgLen l mn mx p) = (if l = 1 \<or> l = 2 \<or> l = 4 then l else lenMsgLen p)"
  "minMsgLen (SetMsgLen l mn mx p)
     = min (if mn \<noteq> 0 then mn else minMsgLen p) (width_max (lenMsgLen (SetMsgLen l mn mx p)))"
  "maxMsgLen (SetMsgLen l mn mx p)
     = min (if mx \<noteq> 0 then mx else maxMsgLen p) (width_max (lenMsgLen (SetMsgLen l mn mx p)))"
  "littleEndian (SetMsgLen l mn mx p) = littleEndian p"
  by (auto simp: SetMsgLen_def Let_def min_def)

text \<open>Claim C7, as amended. After every call of \<open>SetMsgLen\<close>, for all arguments and
  whatever the parser held before, the minimum and the maximum are both at most
  \<open>2^(8 * lenMsgLen) - 1\<close>, so a length between them fits the header. That the minimum
  is at most the maximum is not enforced: it holds after the call when the two values in
  force before the clamp (the nonzero argument, else the old field) are so ordered.\<close>

theorem SetMsgLen_bounds:
  "unat (minMsgLen (SetMsgLen l mn mx p)) \<le> 2 ^ (8 * nat (lenMsgLen (SetMsgLen l mn mx p))) - 1
   \<and> unat (maxMsgLen (SetMsgLen l mn mx p)) \<le> 2 ^ (8 * nat (lenMsgLen (SetMsgLen l mn mx p))) - 1
   \<and> ((if mn \<noteq> 0 then mn else minMsgLen p) \<le> (if mx \<noteq> 0 then mx else maxMsgLen p)
        \<longrightarrow> minMsgLen (SetMsgLen l mn mx p) \<le> maxMsgLen (SetMsgLen l mn mx p))"
proof -
  let ?q = "SetMsgLen l mn mx p"
  let ?m = "width_max (lenMsgLen ?q)"
  have a: "minMsgLen ?q \<le> ?m" "maxMsgLen ?q \<le> ?m"
    by (simp_all add: SetMsgLen_fields(2,3))
  have b: "unat ?m \<le> 2 ^ (8 * nat (lenMsgLen ?q)) - 1" by (rule width_max_bound)
  from a b have "unat (minMsgLen ?q) \<le> 2 ^ (8 * nat (lenMsgLen ?q)) - 1"
     "unat (maxMsgLen ?q) \<le> 2 ^ (8 * nat (lenMsgLen ?q)) - 1"
    by (meson order_trans word_le_nat_alt)+
  moreover have "(if mn \<noteq> 0 then mn else minMsgLen p) \<le> (if mx \<noteq> 0 then mx else maxMsgLen p)
        \<Longrightarrow> minMsgLen ?q \<le> maxMsgLen ?q"
    unfolding SetMsgLen_fields(2,3) by (simp add: min_le_iff_disj)
  ultimately show ?thesis by blast
qed

theorem SetMsgLen_bounds_witness:
  "unat (minMsgLen (SetMsgLen 2 1 8 NewMsgParser)) \<le> 65535
   \<and> unat (maxMsgLen (SetMsgLen 2 1 8 NewMsgParser)) \<le> 65535
   \<and> (1 :: uint32) \<le> 8
   \<and> minMsgLen (SetMsgLen 2 1 8 NewMsgParser) \<le> maxMsgLen (SetMsgLen 2 1 8 NewMsgParser)"
  using SetMsgLen_bounds [of 2 1 8 NewMsgParser]
  by (simp add: SetMsgLen_fields(1))

theorem SetMsgLen_order_counterexample:
  "\<not> minMsgLen (SetMsgLen 2 100 50 NewMsgParser) \<le> maxMsgLen (SetMsgLen 2 100 50 NewMsgParser)"
  by (simp add: SetMsgLen_def NewMsgParser_def width_max_def Let_def)

subsection \<open>The errors of Write\<close>




text \<open>Beyond \<open>2^32\<close> the sum wraps: one buffer of \<open>2^32 + 1\<close> bytes passes both tests of
  the default parser as a message of one byte, and a frame holding its first byte is
  queued.\<close>

lemma Write_length_wraps:
  "MsgParser_Write NewMsgParser (open_conn NewMsgParser) [replicate 4294967297 0x41]
   = Return (None, (open_conn NewMsgParser)\<lparr>writeChan := [Some [0, 1, 0x41]]\<rparr>)"
proof -
  have r3: "replicate 3 (0::byte) = [0, 0, 0]" by (simp add: numeral_3_eq_3)
  have m1: "min (Suc 0) 4294967297 = Suc 0" by simp
  have f: "frame NewMsgParser [replicate 4294967297 0x41] = Return (Inr [0, 1, 0x41])"
    by (simp add: frame_def sum_len_eq Let_def NewMsgParser_def put_len_def be_put16_def r3 m1)
  show ?thesis
    by (simp add: MsgParser_Write_def f TCPConn_Write_def TCPConn_doWrite_def open_conn_def)
qed

section \<open>Properties of the connections\<close>

lemma TCPConn_inv:
  "TCPConn_reachable c \<Longrightarrow> length (writeChan c) \<le> writeCap c \<and> (chanClosed c \<longrightarrow> closeFlag c)"
proof (induction rule: TCPConn_reachable.induct)
  case (tcp_new n p c)
  then show ?case by (auto simp: newTCPConn_def split: if_splits)
next
  case (tcp_write c b c')
  then show ?case
    by (auto simp: TCPConn_Write_def TCPConn_doWrite_def TCPConn_doDestroy_def Let_def split: if_splits)
next
  case (tcp_close c c')
  then show ?case
    by (auto simp: TCPConn_Close_def TCPConn_doWrite_def TCPConn_doDestroy_def Let_def split: if_splits outcome.splits)
next
  case (tcp_destroy c c')
  then show ?case
    by (auto simp: TCPConn_Destroy_def TCPConn_doDestroy_def Let_def split: if_splits)
next
  case (tcp_writer c ok)
  then show ?case
    by (auto simp: TCPConn_writer_def split: list.splits option.splits)
qed


lemma TCPConn_no_panic:
  "TCPConn_reachable c \<Longrightarrow>
     (\<exists>c'. TCPConn_Write b c = Return c') \<and> (\<exists>c'. TCPConn_Close c = Return c') \<and> (\<exists>c'. TCPConn_Destroy c = Return c')"
  using TCPConn_inv [of c]
  by (auto simp: TCPConn_Write_def TCPConn_Close_def TCPConn_Destroy_def TCPConn_doWrite_def TCPConn_doDestroy_def Let_def)

subsection \<open>Writes on a closed connection\<close>

lemma TCPConn_WriteMsg_closed:
  assumes "closeFlag c"
    and w: "lenMsgLen (msgParser c) = 1 \<or> lenMsgLen (msgParser c) = 2 \<or> lenMsgLen (msgParser c) = 4"
    and mx: "unat (maxMsgLen (msgParser c)) < 2 ^ (8 * nat (lenMsgLen (msgParser c)))"
    and lo: "unat (minMsgLen (msgParser c)) \<le> length (concat bs)"
    and hi: "length (concat bs) \<le> unat (maxMsgLen (msgParser c))"
    and room: "nat (lenMsgLen (msgParser c)) + length (concat bs) < 2 ^ 32"
  shows "TCPConn_WriteMsg bs c = Return (None, c)"
  using assms(1)
  by (simp add: TCPConn_WriteMsg_def MsgParser_Write_def frame_ok [OF w mx lo hi room]
      TCPConn_Write_def)

lemma WSConn_WriteMsg_closed: "closeFlag c \<Longrightarrow> WSConn_WriteMsg bs c = Return (None, c)"
  by (simp add: WSConn_WriteMsg_def)

text \<open>Claim C10. On a connection whose closed flag is set, \<open>WriteMsg\<close> with a payload
  inside the bounds returns nil and queues nothing. The WebSocket connection does so for
  every payload and the TCP connection for every payload that, with its header, stays
  below \<open>2^32\<close> bytes. For the payload of \<open>2^32 - 4\<close> bytes, inside the bounds of a
  parser of width 4, the TCP connection panics instead of returning.\<close>

theorem WriteMsg_closed_size_wraps:
  "closeFlag ((open_conn (SetMsgLen 4 1 0xFFFFFFFF NewMsgParser))\<lparr>closeFlag := True\<rparr>)
   \<and> unat (minMsgLen (SetMsgLen 4 1 0xFFFFFFFF NewMsgParser)) \<le> length (replicate 4294967292 (0::byte))
   \<and> length (replicate 4294967292 (0::byte)) \<le> unat (maxMsgLen (SetMsgLen 4 1 0xFFFFFFFF NewMsgParser))
   \<and> TCPConn_WriteMsg [replicate 4294967292 0]
        ((open_conn (SetMsgLen 4 1 0xFFFFFFFF NewMsgParser))\<lparr>closeFlag := True\<rparr>)
      = Panics ''index out of range''"
  by (simp add: TCPConn_WriteMsg_def MsgParser_Write_def frame_overflow open_conn_def)
     (simp add: SetMsgLen_4_max)

subsection \<open>The bound of the write queue\<close>





section \<open>Properties of the channel RPC\<close>

lemma call_boom: "call_f boom_call = Panics ''boom''"
  by (simp add: call_f_def boom_call_def)

lemma exec_panic_reply_blocked:
  "call_f ci = Panics r \<Longrightarrow> chanRet ci = Some k \<Longrightarrow> \<not> closed (st k)
   \<Longrightarrow> cap (st k) \<le> length (buf (st k)) \<Longrightarrow> Server_exec L stack ci st = Suspended"
  by (simp add: Server_exec_def Server_ret_def send_def)

lemma exec_panic_reply_closed:
  "call_f ci = Panics r \<Longrightarrow> chanRet ci = Some k \<Longrightarrow> closed (st k)
   \<Longrightarrow> Server_exec L stack ci st = Finished (Some (panic_error L stack r), st)"
  by (simp add: Server_exec_def Server_ret_def send_def)

text \<open>Claim C3, as amended. For every call whose function panics in \<open>exec\<close>, the
  panic is recovered. The error \<open>exec\<close> returns, which \<open>Exec\<close> logs, is formatted from
  the panic value together with the stack trace, cut to the configured length of the
  stack buffer. The error sent back through the reply slot, when the call has one (and
  the slot is open and has room), is formatted from the panic value alone, and the
  result carries the call's callback. Without a reply slot nothing is sent.\<close>

theorem exec_panic_reply:
  assumes "call_f ci = Panics r"
  shows "(chanRet ci = None \<longrightarrow>
            Server_exec L stack ci st = Finished (Some (panic_error L stack r), st))
       \<and> (\<forall>k. chanRet ci = Some k \<and> \<not> closed (st k) \<and> length (buf (st k)) < cap (st k) \<longrightarrow>
            Server_exec L stack ci st
              = Finished (Some (panic_error L stack r),
                  st(k := (st k)\<lparr>buf := buf (st k) @ [\<lparr>ret = RetNil, err = Some r, cb = ci_cb ci\<rparr>]\<rparr>)))"
  using assms by (auto simp: Server_exec_def Server_ret_def send_def)

theorem exec_panic_reply_witness:
  "call_f boom_call = Panics ''boom''
   \<and> chanRet boom_call = Some 0
   \<and> Server_exec 4096 ''goroutine 1 [running]'' boom_call (empty_store 1)
       = Finished (Some ''boom: goroutine 1 [running]'',
           (empty_store 1)(0 := \<lparr>buf = [\<lparr>ret = RetNil, err = Some ''boom'', cb = None\<rparr>], cap = 1, closed = False\<rparr>))"
proof -
  have c: "chanRet boom_call = Some 0" "ci_cb boom_call = None" by (simp_all add: boom_call_def)
  have s: "\<not> closed ((empty_store 1 :: unit store) 0)"
    "length (buf ((empty_store 1 :: unit store) 0)) < cap ((empty_store 1 :: unit store) 0)"
    "(empty_store 1 :: unit store) 0 = \<lparr>buf = [], cap = 1, closed = False\<rparr>"
    by (simp_all add: empty_store_def)
  have p: "panic_error 4096 ''goroutine 1 [running]'' ''boom'' = ''boom: goroutine 1 [running]''"
    by (simp add: panic_error_def)
  from exec_panic_reply [OF call_boom, of 4096 "''goroutine 1 [running]''" "empty_store 1"] c s(1,2)
  have "Server_exec 4096 ''goroutine 1 [running]'' boom_call (empty_store 1)
      = Finished (Some (panic_error 4096 ''goroutine 1 [running]'' ''boom''),
          (empty_store 1)(0 := ((empty_store 1) 0)\<lparr>buf := buf ((empty_store 1) 0) @ [\<lparr>ret = RetNil, err = Some ''boom'', cb = None\<rparr>]\<rparr>))"
    by simp
  then show ?thesis using c call_boom by (simp add: p empty_store_def)
qed

theorem exec_panic_reply_counterexample:
  "Server_exec 4096 ''goroutine 1 [running]'' boom_call (empty_store 1)
       = Finished (Some ''boom: goroutine 1 [running]'',
           (empty_store 1)(0 := \<lparr>buf = [\<lparr>ret = RetNil, err = Some ''boom'', cb = None\<rparr>], cap = 1, closed = False\<rparr>))
   \<and> ''boom'' \<noteq> panic_error 4096 ''goroutine 1 [running]'' ''boom''"
proof -
  have c: "chanRet boom_call = Some 0" "ci_cb boom_call = None" by (simp_all add: boom_call_def)
  show ?thesis
    by (simp add: Server_exec_def Server_ret_def send_def call_boom c empty_store_def panic_error_def)
qed

text \<open>Claim C4. When the counter of pending asynchronous calls has reached the capacity
  of the client's queue of asynchronous results, \<open>AsynCall\<close> leaves the server (and so
  its request queue), the reply channels and the client with its counter as they were,
  and the callback is called at once, with the error "too many calls".\<close>

theorem AsynCall_too_many_calls:
  assumes "pendingAsynCall c \<ge> int (cap (st (ChanAsynRet c)))"
  shows "Client_AsynCall L stack pr fid (as @ [Callback kind k]) c srv st
           = Finished (c, srv, st,
               [Invoke k (case kind of CbErr \<Rightarrow> None | CbRetErr \<Rightarrow> Some RetNil | CbRetsErr \<Rightarrow> Some RetNil)
                  (Some ''too many calls'')])"
  using assms by (cases kind) (simp_all add: Client_AsynCall_def execCb_def Let_def)

theorem AsynCall_too_many_calls_witness:
  "pendingAsynCall busy_client \<ge> int (cap ((empty_store 1 :: unit store) (ChanAsynRet busy_client)))
   \<and> Client_AsynCall 4096 [] (\<lambda>i. []) (0::nat) [Val (), Callback CbErr 7] busy_client None (empty_store 1)
       = Finished (busy_client, None, empty_store 1, [Invoke 7 None (Some ''too many calls'')])"
  using AsynCall_too_many_calls [where c = busy_client and st = "empty_store 1 :: unit store"
      and L = 4096 and stack = "[]" and pr = "\<lambda>i. []" and fid = "0::nat"
      and as = "[Val ()]" and kind = CbErr and k = 7 and srv = None]
  by (simp add: busy_client_def empty_store_def)

section \<open>Properties of the module registry\<close>

lemma Destroy_from_rev:
  "n \<le> length mods \<Longrightarrow>
   Destroy_from L stack (int n - 1) mods
     = Return (concat (map (\<lambda>i. [SendCloseSig i True, WaitRun i, CallOnDestroy i]
                  @ (case OnDestroy (mods ! i) of Return u \<Rightarrow> [] | Panics r \<Rightarrow> [LogPanic (panic_error L stack r)]))
                (rev [0..<n])))"
proof (induction n)
  case 0
  then show ?case by simp
next
  case (Suc n)
  have "int (Suc n) - 1 = int n" by simp
  moreover have "int n - 1 = int n - 1" ..
  ultimately show ?case using Suc
    by (simp add: destroy_def split: outcome.splits)
qed

lemma Register_order: "foldl (\<lambda>mods m. Register m mods) [] ms = ms"
proof -
  have "foldl (\<lambda>mods m. Register m mods) acc ms = acc @ ms" for acc
    by (induction ms arbitrary: acc) (simp_all add: Register_def)
  then show ?thesis by simp
qed

text \<open>Claim C9. \<open>Destroy\<close> goes through the modules in the reverse of the order in
  which they were registered; for each it sends \<open>true\<close> on the close signal, then waits
  for \<open>Run\<close> to have returned, then calls \<open>OnDestroy\<close>, whose panic is recovered and
  logged, so that the modules after it are still destroyed and \<open>Destroy\<close> returns.\<close>

theorem Destroy_reverse_order:
  "Destroy L stack (foldl (\<lambda>mods m. Register m mods) [] ms)
     = Return (concat (map (\<lambda>i. [SendCloseSig i True, WaitRun i, CallOnDestroy i]
                  @ (case OnDestroy (ms ! i) of
                       Return u \<Rightarrow> []
                     | Panics r \<Rightarrow> [LogPanic (panic_error L stack r)]))
                (rev [0..<length ms])))"
  unfolding Destroy_def Register_order by (rule Destroy_from_rev) simp

theorem Destroy_reverse_order_witness:
  "Destroy 0 [] (Register \<lparr>OnDestroy = Return ()\<rparr> (Register \<lparr>OnDestroy = Panics ''late''\<rparr> []))
     = Return [SendCloseSig 1 True, WaitRun 1, CallOnDestroy 1,
               SendCloseSig 0 True, WaitRun 0, CallOnDestroy 0, LogPanic ''late'']"
  using Destroy_reverse_order [of 0 "[]" "[\<lparr>OnDestroy = Panics ''late''\<rparr>, \<lparr>OnDestroy = Return ()\<rparr>]"]
  by (simp add: Register_def panic_error_def upt_rec)

end
